theory Spec2Isabelle
  imports Complex_Main
begin

section \<open>The theme-transition hook: data model\<close>

text \<open>
  The development embeds \<^verbatim>\<open>src/hook/useThemeTransition.ts\<close>. JavaScript numbers are
  modelled as real numbers (no rounding), \<^verbatim>\<open>Math.hypot\<close> as the square root of the sum
  of squares. The browser (document head, root class list, local storage, window
  readings, media queries) and the React state of the hook are one explicit state record;
  every source function that touches them takes the state and returns the new one.
  The state record holds the current React state. A function the hook returns reads the
  constants of the render that created it, not the current state: \<open>toggleTheme\<close> takes
  those constants as an argument of its own.
\<close>

datatype ThemeAnimationType = CIRCLE | BLUR_CIRCLE | FADE | SLIDE | NONE

datatype SlideDirection = UP | DOWN | LEFT | RIGHT

text \<open>
  The options after destructuring with their defaults. \<open>externalDarkMode\<close> is the optional
  \<^verbatim>\<open>isDarkMode\<close> option; \<open>onDarkModeChange\<close> says whether the caller supplied a change
  callback (the callback itself belongs to the caller: the model records its invocations).
\<close>

record ThemeTransitionOptions =
  duration :: real
  easing :: string
  themeClassName :: string
  animationType :: ThemeAnimationType
  blurAmount :: real
  styleId :: string
  externalDarkMode :: "bool option"
  onDarkModeChange :: bool
  storageKey :: string
  respectSystemPreference :: bool
  slideDirection :: SlideDirection

definition defaultOptions :: ThemeTransitionOptions where
  "defaultOptions =
     \<lparr> duration = 750,
       easing = ''cubic-bezier(0.4, 0, 0.2, 1)'',
       themeClassName = ''dark'',
       animationType = CIRCLE,
       blurAmount = 2,
       styleId = ''theme-transition-style'',
       externalDarkMode = None,
       onDarkModeChange = False,
       storageKey = ''theme'',
       respectSystemPreference = True,
       slideDirection = RIGHT \<rparr>"

subsection \<open>Style sheets\<close>

text \<open>
  The text of a style element is a template literal. It is kept as its CSS structure:
  rules and keyframes whose values are lists of literal text and interpolated numbers.
\<close>

datatype piece = Txt string | Num real

type_synonym cssDecl = "string \<times> piece list"

datatype cssBlock =
    Rule string "cssDecl list"
  | Keyframes string "(string \<times> cssDecl list) list"

record styleElement =
  elemId :: string
  textContent :: "cssBlock list"

fun keyframesOf :: "string \<Rightarrow> cssBlock list \<Rightarrow> (string \<times> cssDecl list) list option" where
  "keyframesOf n [] = None"
| "keyframesOf n (Rule s ds # bs) = keyframesOf n bs"
| "keyframesOf n (Keyframes m fs # bs) = (if m = n then Some fs else keyframesOf n bs)"

definition keyframeValue :: "string \<Rightarrow> string \<Rightarrow> string \<Rightarrow> cssBlock list \<Rightarrow> piece list option" where
  "keyframeValue n stp prop css =
     (case keyframesOf n css of
        None \<Rightarrow> None
      | Some fs \<Rightarrow> (case map_of fs stp of None \<Rightarrow> None | Some ds \<Rightarrow> map_of ds prop))"

subsection \<open>The browser and the hook state\<close>

record DOMRect =
  rectTop :: real
  rectLeft :: real
  rectWidth :: real
  rectHeight :: real

text \<open>
  Observable events, in the order the code performs them. The trace, the list of
  snapshots of the document head and the list of uncaught errors are ghost fields: no
  source function reads them.
\<close>

datatype event =
    AnchorResolved real real
  | StyleRemoved string
  | StyleAppended string
  | TransitioningSet bool
  | TransitionStarted
  | InternalSet bool
  | ChangeCallback bool
  | CleanupScheduled real

text \<open>The exceptions of \<^verbatim>\<open>DOMTokenList\<close> methods.\<close>

datatype domError = SyntaxError | InvalidCharacterError

record world =
  internalDarkMode :: bool
  isTransitioning :: bool
  docHead :: "styleElement list"
  rootClasses :: "string set"
  storage :: "string \<rightharpoonup> string"
  innerWidth :: real
  innerHeight :: real
  prefersDark :: bool
  prefersReducedMotion :: bool
  refCurrent :: "DOMRect option"
  pendingUpdates :: "bool list"
  awaiting :: nat
  timers :: nat
  trace :: "event list"
  snapshots :: "styleElement list list"
  uncaught :: "domError list"

text \<open>
  \<open>isBrowser\<close> is the module constant; \<open>hasStartViewTransition\<close> says whether the document
  has \<^verbatim>\<open>startViewTransition\<close>.
\<close>

record env =
  isBrowser :: bool
  hasStartViewTransition :: bool

section \<open>DOM primitives\<close>

text \<open>
  \<^verbatim>\<open>document.getElementById\<close>: the first element with that identifier. An element whose
  \<^verbatim>\<open>id\<close> is the empty string has no identifier, so the empty string finds nothing.
\<close>

definition getElementById :: "string \<Rightarrow> styleElement list \<Rightarrow> styleElement option" where
  "getElementById i els = (if i = [] then None else find (\<lambda>e. elemId e = i) els)"

fun removeFirst :: "string \<Rightarrow> styleElement list \<Rightarrow> styleElement list" where
  "removeFirst i [] = []"
| "removeFirst i (e # es) = (if elemId e = i then es else e # removeFirst i es)"

definition logEvent :: "event \<Rightarrow> world \<Rightarrow> world" where
  "logEvent e w = w\<lparr>trace := trace w @ [e]\<rparr>"

definition setHead :: "styleElement list \<Rightarrow> world \<Rightarrow> world" where
  "setHead h w = w\<lparr>docHead := h, snapshots := snapshots w @ [h]\<rparr>"

definition appendChild :: "styleElement \<Rightarrow> world \<Rightarrow> world" where
  "appendChild e w = logEvent (StyleAppended (elemId e)) (setHead (docHead w @ [e]) w)"

text \<open>\<^verbatim>\<open>const el = document.getElementById(id); if (el) el.remove()\<close>\<close>

definition removeExisting :: "string \<Rightarrow> world \<Rightarrow> world" where
  "removeExisting i w =
     (case getElementById i (docHead w) of
        Some el \<Rightarrow> logEvent (StyleRemoved i) (setHead (removeFirst i (docHead w)) w)
      | None \<Rightarrow> w)"

section \<open>Theme state\<close>

definition isDarkMode :: "ThemeTransitionOptions \<Rightarrow> world \<Rightarrow> bool" where
  "isDarkMode cfg w =
     (case externalDarkMode cfg of Some ext \<Rightarrow> ext | None \<Rightarrow> internalDarkMode w)"

definition getInitialTheme :: "ThemeTransitionOptions \<Rightarrow> env \<Rightarrow> world \<Rightarrow> bool" where
  "getInitialTheme cfg ev w =
     (if \<not> isBrowser ev then False
      else let storedTheme = storage w (storageKey cfg) in
        if storedTheme = Some ''dark'' then True
        else if storedTheme = Some ''light'' then False
        else if respectSystemPreference cfg then prefersDark w
        else False)"

text \<open>
  \<^verbatim>\<open>classList.add\<close> and \<^verbatim>\<open>classList.remove\<close> validate their token first: the empty
  string raises \<^verbatim>\<open>SyntaxError\<close>, a token with ASCII white space raises
  \<^verbatim>\<open>InvalidCharacterError\<close>, and nothing is changed.
\<close>

definition asciiWhitespace :: "char list" where
  "asciiWhitespace = [CHR 0x09, CHR 0x0A, CHR 0x0C, CHR 0x0D, CHR 0x20]"

definition validateToken :: "string \<Rightarrow> domError option" where
  "validateToken t =
     (if t = [] then Some SyntaxError
      else if list_ex (\<lambda>c. c \<in> set asciiWhitespace) t then Some InvalidCharacterError
      else None)"

definition classListAdd :: "string \<Rightarrow> string set \<Rightarrow> domError + string set" where
  "classListAdd t cs = (case validateToken t of Some e \<Rightarrow> Inl e | None \<Rightarrow> Inr (insert t cs))"

definition classListRemove :: "string \<Rightarrow> string set \<Rightarrow> domError + string set" where
  "classListRemove t cs = (case validateToken t of Some e \<Rightarrow> Inl e | None \<Rightarrow> Inr (cs - {t}))"

text \<open>
  The effect that applies the current theme to the root element and to storage. The class
  list comes first: when it throws, the storage entry is not written.
\<close>

definition applyTheme :: "ThemeTransitionOptions \<Rightarrow> env \<Rightarrow> world \<Rightarrow> domError + world" where
  "applyTheme cfg ev w =
     (if \<not> isBrowser ev then Inr w
      else if isDarkMode cfg w then
        (case classListAdd (themeClassName cfg) (rootClasses w) of
           Inl e \<Rightarrow> Inl e
         | Inr cs \<Rightarrow>
             Inr (w\<lparr>rootClasses := cs, storage := (storage w)(storageKey cfg \<mapsto> ''dark'')\<rparr>))
      else
        (case classListRemove (themeClassName cfg) (rootClasses w) of
           Inl e \<Rightarrow> Inl e
         | Inr cs \<Rightarrow>
             Inr (w\<lparr>rootClasses := cs, storage := (storage w)(storageKey cfg \<mapsto> ''light'')\<rparr>)))"

text \<open>
  React runs the effect. Nothing catches what it throws: the state is as it was before
  the effect, and the error is recorded. What React then does with the component (it
  unmounts the tree) is not modelled.
\<close>

definition runThemeEffect :: "ThemeTransitionOptions \<Rightarrow> env \<Rightarrow> world \<Rightarrow> world" where
  "runThemeEffect cfg ev w =
     (case applyTheme cfg ev w of
        Inl e \<Rightarrow> w\<lparr>uncaught := uncaught w @ [e]\<rparr>
      | Inr w' \<Rightarrow> w')"

text \<open>
  A state update re-renders the hook; the effect above has \<^verbatim>\<open>isDarkMode\<close> among its
  dependencies and runs again when that value differs from the previous render's.
\<close>

definition rerender :: "ThemeTransitionOptions \<Rightarrow> env \<Rightarrow> bool \<Rightarrow> world \<Rightarrow> world" where
  "rerender cfg ev prev w = (if isDarkMode cfg w \<noteq> prev then runThemeEffect cfg ev w else w)"

definition setInternalDarkMode :: "ThemeTransitionOptions \<Rightarrow> env \<Rightarrow> bool \<Rightarrow> world \<Rightarrow> world" where
  "setInternalDarkMode cfg ev v w =
     rerender cfg ev (isDarkMode cfg w) (logEvent (InternalSet v) (w\<lparr>internalDarkMode := v\<rparr>))"

definition setIsTransitioning :: "bool \<Rightarrow> world \<Rightarrow> world" where
  "setIsTransitioning v w = logEvent (TransitioningSet v) (w\<lparr>isTransitioning := v\<rparr>)"

text \<open>Every call site passes a boolean, so the functional-update branch is not modelled.\<close>

definition updateDarkMode :: "ThemeTransitionOptions \<Rightarrow> env \<Rightarrow> bool \<Rightarrow> world \<Rightarrow> world" where
  "updateDarkMode cfg ev newValue w =
     (if onDarkModeChange cfg then logEvent (ChangeCallback newValue) w
      else setInternalDarkMode cfg ev newValue w)"

section \<open>Style synthesis\<close>

definition groupRule :: "ThemeTransitionOptions \<Rightarrow> cssBlock" where
  "groupRule cfg =
     Rule ''::view-transition-group(root)''
       [(''animation-duration'', [Num (duration cfg), Txt ''ms'']),
        (''animation-timing-function'', [Txt (easing cfg)])]"

definition animationOf :: "string \<Rightarrow> ThemeTransitionOptions \<Rightarrow> piece list" where
  "animationOf n cfg = [Txt n, Txt '' '', Num (duration cfg), Txt ''ms '', Txt (easing cfg)]"

definition fadeOutKeyframes :: cssBlock where
  "fadeOutKeyframes =
     Keyframes ''fadeOut''
       [(''from'', [(''opacity'', [Txt ''1''])]), (''to'', [(''opacity'', [Txt ''0''])])]"

definition fadeCss :: "ThemeTransitionOptions \<Rightarrow> cssBlock list" where
  "fadeCss cfg =
     [groupRule cfg,
      Rule ''::view-transition-new(root)'' [(''animation'', animationOf ''fadeIn'' cfg)],
      Rule ''::view-transition-old(root)'' [(''animation'', animationOf ''fadeOut'' cfg)],
      Keyframes ''fadeIn''
        [(''from'', [(''opacity'', [Txt ''0''])]), (''to'', [(''opacity'', [Txt ''1''])])],
      fadeOutKeyframes]"

definition applyFadeTransition :: "ThemeTransitionOptions \<Rightarrow> world \<Rightarrow> world" where
  "applyFadeTransition cfg w =
     appendChild \<lparr>elemId = styleId cfg, textContent = fadeCss cfg\<rparr> w"

text \<open>The offset the new state slides in from: \<open>(fromX, fromY)\<close>.\<close>

fun slideFrom :: "SlideDirection \<Rightarrow> string \<times> string" where
  "slideFrom UP = (''0%'', ''100%'')"
| "slideFrom DOWN = (''0%'', ''-100%'')"
| "slideFrom LEFT = (''100%'', ''0%'')"
| "slideFrom RIGHT = (''-100%'', ''0%'')"

definition slideCss :: "ThemeTransitionOptions \<Rightarrow> cssBlock list" where
  "slideCss cfg =
     (let (fromX, fromY) = slideFrom (slideDirection cfg) in
      [groupRule cfg,
       Rule ''::view-transition-new(root)'' [(''animation'', animationOf ''slideIn'' cfg)],
       Rule ''::view-transition-old(root)'' [(''animation'', animationOf ''fadeOut'' cfg)],
       Keyframes ''slideIn''
         [(''from'',
            [(''transform'', [Txt ''translate('', Txt fromX, Txt '', '', Txt fromY, Txt '')'']),
             (''opacity'', [Txt ''0''])]),
          (''to'',
            [(''transform'', [Txt ''translate(0%, 0%)'']),
             (''opacity'', [Txt ''1''])])],
       fadeOutKeyframes])"

definition applySlideTransition :: "ThemeTransitionOptions \<Rightarrow> world \<Rightarrow> world" where
  "applySlideTransition cfg w =
     appendChild \<lparr>elemId = styleId cfg, textContent = slideCss cfg\<rparr> w"

definition createBlurCircleMask :: "real \<Rightarrow> piece list" where
  "createBlurCircleMask blur =
     [Txt ''url('data:image/svg+xml,<svg xmlns=\"http://www.w3.org/2000/svg\" viewBox=\"-50 -50 100 100\"><defs><filter id=\"blur\"><feGaussianBlur stdDeviation=\"'',
      Num blur,
      Txt ''\"/></filter></defs><circle cx=\"0\" cy=\"0\" r=\"25\" fill=\"white\" filter=\"url(%23blur)\"/></svg>')'']"

definition position :: "real \<Rightarrow> real \<Rightarrow> piece list" where
  "position x y = [Num x, Txt ''px '', Num y, Txt ''px'']"

definition scaleFactor :: real where
  "scaleFactor = 5.5"

text \<open>\<open>vw\<close> and \<open>vh\<close> are \<^verbatim>\<open>window.innerWidth\<close> and \<^verbatim>\<open>window.innerHeight\<close>.\<close>

definition blurCircleCss :: "ThemeTransitionOptions \<Rightarrow> real \<Rightarrow> real \<Rightarrow> real \<Rightarrow> real \<Rightarrow> cssBlock list" where
  "blurCircleCss cfg x y vw vh =
     (let viewportSize = max vw vh in
      [groupRule cfg,
       Rule ''::view-transition-new(root)''
         [(''mask'', createBlurCircleMask (blurAmount cfg) @ [Txt '' 0 0 / 100% 100% no-repeat'']),
          (''mask-position'', position x y),
          (''animation'', animationOf ''maskScale'' cfg),
          (''transform-origin'', position x y)],
       Rule ''::view-transition-old(root)''
         [(''animation'', animationOf ''fadeOut'' cfg),
          (''transform-origin'', position x y),
          (''z-index'', [Txt ''-1''])],
       Keyframes ''maskScale''
         [(''0%'',
            [(''mask-size'', [Txt ''0px'']),
             (''mask-position'', position x y)]),
          (''100%'',
            [(''mask-size'', [Num (viewportSize * scaleFactor), Txt ''px'']),
             (''mask-position'',
                position (x - (viewportSize * scaleFactor) / 2)
                         (y - (viewportSize * scaleFactor) / 2))])],
       fadeOutKeyframes])"

definition applyBlurCircleTransition :: "ThemeTransitionOptions \<Rightarrow> real \<Rightarrow> real \<Rightarrow> world \<Rightarrow> world" where
  "applyBlurCircleTransition cfg x y w =
     appendChild
       \<lparr>elemId = styleId cfg,
        textContent = blurCircleCss cfg x y (innerWidth w) (innerHeight w)\<rparr> w"

subsection \<open>Geometry\<close>

definition hypot :: "real \<Rightarrow> real \<Rightarrow> real" where
  "hypot a b = sqrt (a\<^sup>2 + b\<^sup>2)"

text \<open>The anchor of \<^verbatim>\<open>setTheme\<close>: the viewport centre, replaced when \<^verbatim>\<open>ref.current\<close> is set.\<close>

definition resolveAnchor :: "world \<Rightarrow> real \<times> real" where
  "resolveAnchor w =
     (let x = innerWidth w / 2; y = innerHeight w / 2 in
      case refCurrent w of
        Some r \<Rightarrow> (rectLeft r + rectWidth r / 2, rectTop r + rectHeight r / 2)
      | None \<Rightarrow> (x, y))"

definition maxRadius :: "real \<Rightarrow> real \<Rightarrow> real \<Rightarrow> real \<Rightarrow> real" where
  "maxRadius x y vw vh = hypot (max x (vw - x)) (max y (vh - y))"

definition circle :: "piece \<Rightarrow> real \<Rightarrow> real \<Rightarrow> piece list" where
  "circle r x y = [Txt ''circle('', r, Txt ''px at '', Num x, Txt ''px '', Num y, Txt ''px)'']"

definition circleCss :: "ThemeTransitionOptions \<Rightarrow> real \<Rightarrow> real \<Rightarrow> real \<Rightarrow> real \<Rightarrow> cssBlock list" where
  "circleCss cfg x y vw vh =
     (let r = maxRadius x y vw vh in
      [Rule ''::view-transition-new(root)''
         [(''animation'', animationOf ''expandCircle'' cfg @ [Txt '' forwards''])],
       Keyframes ''expandCircle''
         [(''from'', [(''clip-path'', circle (Txt ''0'') x y)]),
          (''to'', [(''clip-path'', circle (Num r) x y)])]])"

section \<open>The orchestrator\<close>

text \<open>
  \<^verbatim>\<open>document.startViewTransition(cb)\<close> returns at once; the platform invokes \<open>cb\<close> later,
  when it has captured the old state. The model queues the value \<open>cb\<close> will pass to
  \<open>updateDarkMode\<close>.
\<close>

definition startViewTransition :: "bool \<Rightarrow> world \<Rightarrow> world" where
  "startViewTransition isDark w =
     logEvent TransitionStarted (w\<lparr>pendingUpdates := pendingUpdates w @ [isDark]\<rparr>)"

definition directPath :: "ThemeTransitionOptions \<Rightarrow> env \<Rightarrow> world \<Rightarrow> bool" where
  "directPath cfg ev w =
     (\<not> isBrowser ev \<or> \<not> hasStartViewTransition ev \<or> prefersReducedMotion w
      \<or> animationType cfg = NONE)"

text \<open>
  \<^verbatim>\<open>setTheme\<close> up to its \<^verbatim>\<open>await\<close>: the part that runs within the call. What follows the
  \<^verbatim>\<open>await\<close> is \<open>resumeAfterReady\<close>, and the timer callback is \<open>cleanup\<close>.
\<close>

definition setTheme :: "ThemeTransitionOptions \<Rightarrow> env \<Rightarrow> bool \<Rightarrow> world \<Rightarrow> world" where
  "setTheme cfg ev isDark w =
     (if \<not> isBrowser ev then updateDarkMode cfg ev isDark w
      else if \<not> hasStartViewTransition ev \<or> prefersReducedMotion w \<or> animationType cfg = NONE
      then updateDarkMode cfg ev isDark w
      else
        let (x, y) = resolveAnchor w;
            w1 = logEvent (AnchorResolved x y) w;
            w2 = removeExisting (styleId cfg) w1;
            w3 = (case animationType cfg of
                    FADE \<Rightarrow> applyFadeTransition cfg w2
                  | SLIDE \<Rightarrow> applySlideTransition cfg w2
                  | BLUR_CIRCLE \<Rightarrow> applyBlurCircleTransition cfg x y w2
                  | _ \<Rightarrow> w2);
            w4 = setIsTransitioning True w3;
            w5 = startViewTransition isDark w4;
            w6 = (if animationType cfg = CIRCLE
                  then appendChild
                         \<lparr>elemId = styleId cfg,
                          textContent = circleCss cfg x y (innerWidth w5) (innerHeight w5)\<rparr> w5
                  else w5)
        in w6\<lparr>awaiting := Suc (awaiting w6)\<rparr>)"

text \<open>The platform invokes the oldest queued callback: \<^verbatim>\<open>flushSync(() => updateDarkMode(isDark))\<close>.\<close>

definition transitionCallback :: "ThemeTransitionOptions \<Rightarrow> env \<Rightarrow> world \<Rightarrow> world" where
  "transitionCallback cfg ev w =
     (case pendingUpdates w of
        [] \<Rightarrow> w
      | isDark # rest \<Rightarrow> updateDarkMode cfg ev isDark (w\<lparr>pendingUpdates := rest\<rparr>))"

text \<open>One suspended \<^verbatim>\<open>setTheme\<close> resumes and schedules its cleanup timer.\<close>

definition resumeAfterReady :: "ThemeTransitionOptions \<Rightarrow> world \<Rightarrow> world" where
  "resumeAfterReady cfg w =
     (if awaiting w = 0 then w
      else logEvent (CleanupScheduled (duration cfg))
             (w\<lparr>awaiting := awaiting w - 1, timers := Suc (timers w)\<rparr>))"

text \<open>One scheduled timer fires.\<close>

definition cleanup :: "ThemeTransitionOptions \<Rightarrow> world \<Rightarrow> world" where
  "cleanup cfg w =
     (if timers w = 0 then w
      else setIsTransitioning False
             (removeExisting (styleId cfg) (w\<lparr>timers := timers w - 1\<rparr>)))"

text \<open>
  One render of the hook in the state \<open>w\<close>: the \<^verbatim>\<open>isDarkMode\<close> and
  \<^verbatim>\<open>isTransitioning\<close> it returns. They are constants of that render, and the
  \<^verbatim>\<open>toggleTheme\<close> it returns closes over them.
\<close>

record ThemeTransitionResult =
  resultIsDarkMode :: bool
  resultIsTransitioning :: bool

definition useThemeTransition :: "ThemeTransitionOptions \<Rightarrow> world \<Rightarrow> ThemeTransitionResult" where
  "useThemeTransition cfg w =
     \<lparr>resultIsDarkMode = isDarkMode cfg w, resultIsTransitioning = isTransitioning w\<rparr>"

text \<open>
  The \<^verbatim>\<open>toggleTheme\<close> of the render \<open>r\<close>, called in the state \<open>w\<close>. The state may have
  moved on since that render: the guard and the negation read \<open>r\<close>.
\<close>

definition toggleTheme :: "ThemeTransitionOptions \<Rightarrow> env \<Rightarrow> ThemeTransitionResult \<Rightarrow> world \<Rightarrow> world" where
  "toggleTheme cfg ev r w =
     (if resultIsTransitioning r then w else setTheme cfg ev (\<not> resultIsDarkMode r) w)"

subsection \<open>Mounting and the ambient preference\<close>

definition baseStyle :: styleElement where
  "baseStyle =
     \<lparr>elemId = ''theme-transition-base-style'',
      textContent =
        [Rule ''::view-transition-old(root), ::view-transition-new(root)''
           [(''animation'', [Txt ''none'']), (''mix-blend-mode'', [Txt ''normal''])]]\<rparr>"

definition injectBaseStyle :: "env \<Rightarrow> world \<Rightarrow> world" where
  "injectBaseStyle ev w =
     (if isBrowser ev then
        (case getElementById (elemId baseStyle) (docHead w) of
           None \<Rightarrow> appendChild baseStyle w
         | Some el \<Rightarrow> w)
      else w)"

text \<open>
  The first render: the state initialisers, then the effects in the order the hook
  declares them. The subscription effect changes no state; \<open>ambientChange\<close> below is
  what the platform does with the listener it registers.
\<close>

definition mount :: "ThemeTransitionOptions \<Rightarrow> env \<Rightarrow> world \<Rightarrow> world" where
  "mount cfg ev w =
     runThemeEffect cfg ev
       (injectBaseStyle ev
          (w\<lparr>internalDarkMode := getInitialTheme cfg ev w, isTransitioning := False\<rparr>))"

text \<open>\<^verbatim>\<open>!localStorage.getItem(storageKey)\<close>: no entry, or the empty string.\<close>

definition noStoredPreference :: "ThemeTransitionOptions \<Rightarrow> world \<Rightarrow> bool" where
  "noStoredPreference cfg w =
     (case storage w (storageKey cfg) of None \<Rightarrow> True | Some v \<Rightarrow> v = [])"

definition handleChange :: "ThemeTransitionOptions \<Rightarrow> env \<Rightarrow> bool \<Rightarrow> world \<Rightarrow> world" where
  "handleChange cfg ev matches w =
     (if noStoredPreference cfg w then updateDarkMode cfg ev matches w else w)"

text \<open>The ambient preference changes; the listener exists when the effect registered it.\<close>

definition ambientChange :: "ThemeTransitionOptions \<Rightarrow> env \<Rightarrow> bool \<Rightarrow> world \<Rightarrow> world" where
  "ambientChange cfg ev matches w =
     (let w1 = w\<lparr>prefersDark := matches\<rparr> in
      if \<not> isBrowser ev \<or> \<not> respectSystemPreference cfg then w1
      else handleChange cfg ev matches w1)"

subsection \<open>Runs\<close>

text \<open>
  What can happen to a mounted hook, one event-loop task at a time: the caller's two
  operations, the three continuations of an animated \<^verbatim>\<open>setTheme\<close>, and changes of the
  environment. A \<open>ToggleTheme\<close> names the render whose function the caller holds, which
  need not be the latest one.
\<close>

datatype action =
    SetTheme bool
  | ToggleTheme ThemeTransitionResult
  | TransitionCallback
  | ReadyResume
  | CleanupTimer
  | AmbientChange bool
  | ReducedMotionChange bool
  | Resize real real
  | BindRef "DOMRect option"

fun step :: "ThemeTransitionOptions \<Rightarrow> env \<Rightarrow> action \<Rightarrow> world \<Rightarrow> world" where
  "step cfg ev (SetTheme b) w = setTheme cfg ev b w"
| "step cfg ev (ToggleTheme r) w = toggleTheme cfg ev r w"
| "step cfg ev TransitionCallback w = transitionCallback cfg ev w"
| "step cfg ev ReadyResume w = resumeAfterReady cfg w"
| "step cfg ev CleanupTimer w = cleanup cfg w"
| "step cfg ev (AmbientChange b) w = ambientChange cfg ev b w"
| "step cfg ev (ReducedMotionChange b) w = w\<lparr>prefersReducedMotion := b\<rparr>"
| "step cfg ev (Resize vw vh) w = w\<lparr>innerWidth := vw, innerHeight := vh\<rparr>"
| "step cfg ev (BindRef r) w = w\<lparr>refCurrent := r\<rparr>"

fun run :: "ThemeTransitionOptions \<Rightarrow> env \<Rightarrow> action list \<Rightarrow> world \<Rightarrow> world" where
  "run cfg ev [] w = w"
| "run cfg ev (a # as) w = run cfg ev as (step cfg ev a w)"

text \<open>A freshly loaded page: light ambient preference, a 1280 by 720 viewport, nothing stored.\<close>

definition freshWorld :: world where
  "freshWorld =
     \<lparr> internalDarkMode = False, isTransitioning = False, docHead = [],
       rootClasses = {}, storage = Map.empty,
       innerWidth = 1280, innerHeight = 720,
       prefersDark = False, prefersReducedMotion = False, refCurrent = None,
       pendingUpdates = [], awaiting = 0, timers = 0,
       trace = [], snapshots = [[]], uncaught = [] \<rparr>"

definition browserEnv :: env where
  "browserEnv = \<lparr>isBrowser = True, hasStartViewTransition = True\<rparr>"

text \<open>The fresh page after mounting, one \<open>setTheme True\<close> and all of its continuations.\<close>

definition darkWorld :: world where
  "darkWorld =
     run defaultOptions browserEnv [SetTheme True, TransitionCallback, ReadyResume, CleanupTimer]
       (mount defaultOptions browserEnv freshWorld)"

subsection \<open>Observations on traces\<close>

definition newEvents :: "world \<Rightarrow> world \<Rightarrow> event list" where
  "newEvents w w' = drop (length (trace w)) (trace w')"

fun isStart :: "event \<Rightarrow> bool" where
  "isStart TransitionStarted = True"
| "isStart _ = False"

fun isAppend :: "event \<Rightarrow> bool" where
  "isAppend (StyleAppended i) = True"
| "isAppend _ = False"

fun isAnchor :: "event \<Rightarrow> bool" where
  "isAnchor (AnchorResolved x y) = True"
| "isAnchor _ = False"

fun isCallback :: "event \<Rightarrow> bool" where
  "isCallback (ChangeCallback b) = True"
| "isCallback _ = False"

fun isInternalSet :: "event \<Rightarrow> bool" where
  "isInternalSet (InternalSet b) = True"
| "isInternalSet _ = False"

definition started :: "world \<Rightarrow> nat" where
  "started w = length (filter isStart (trace w))"

definition appended :: "string \<Rightarrow> world \<Rightarrow> nat" where
  "appended i w = length (filter (\<lambda>e. e = StyleAppended i) (trace w))"

text \<open>The style-attachment and transition-start events of a trace, in order.\<close>

definition synthesisOrder :: "event list \<Rightarrow> event list" where
  "synthesisOrder evs = filter (\<lambda>e. isAppend e \<or> isStart e) evs"

text \<open>A style element is attached before the first start of a transition.\<close>

definition synthesisBeforeStart :: "event list \<Rightarrow> bool" where
  "synthesisBeforeStart evs = list_ex isAppend (takeWhile (\<lambda>e. \<not> isStart e) evs)"

definition atMostOne :: "string \<Rightarrow> styleElement list \<Rightarrow> bool" where
  "atMostOne i h = (length (filter (\<lambda>e. elemId e = i) h) \<le> 1)"

text \<open>
  The spec's wording of the reveal radius: the Euclidean distance from the anchor to the
  farthest of the four corners of a \<open>vw\<close> by \<open>vh\<close> viewport.
\<close>

definition cornerDistance :: "real \<Rightarrow> real \<Rightarrow> real \<Rightarrow> real \<Rightarrow> real" where
  "cornerDistance x y cx cy = sqrt ((x - cx)\<^sup>2 + (y - cy)\<^sup>2)"

definition farthestCornerDistance :: "real \<Rightarrow> real \<Rightarrow> real \<Rightarrow> real \<Rightarrow> real" where
  "farthestCornerDistance x y vw vh =
     max (max (cornerDistance x y 0 0) (cornerDistance x y vw 0))
         (max (cornerDistance x y 0 vh) (cornerDistance x y vw vh))"

text \<open>The stored entry says what the theme state is.\<close>

definition storedTheme :: "ThemeTransitionOptions \<Rightarrow> world \<Rightarrow> bool" where
  "storedTheme cfg w =
     (storage w (storageKey cfg) = Some (if isDarkMode cfg w then ''dark'' else ''light''))"

section \<open>Properties\<close>

lemma logEvent_fields [simp]:
  "trace (logEvent e w) = trace w @ [e]"
  "docHead (logEvent e w) = docHead w"
  "snapshots (logEvent e w) = snapshots w"
  "internalDarkMode (logEvent e w) = internalDarkMode w"
  "isTransitioning (logEvent e w) = isTransitioning w"
  "storage (logEvent e w) = storage w"
  "rootClasses (logEvent e w) = rootClasses w"
  "pendingUpdates (logEvent e w) = pendingUpdates w"
  "awaiting (logEvent e w) = awaiting w"
  "timers (logEvent e w) = timers w"
  "innerWidth (logEvent e w) = innerWidth w"
  "innerHeight (logEvent e w) = innerHeight w"
  "refCurrent (logEvent e w) = refCurrent w"
  "prefersDark (logEvent e w) = prefersDark w"
  "prefersReducedMotion (logEvent e w) = prefersReducedMotion w"
  by (simp_all add: logEvent_def)

lemma setHead_fields [simp]:
  "trace (setHead h w) = trace w"
  "docHead (setHead h w) = h"
  "snapshots (setHead h w) = snapshots w @ [h]"
  "internalDarkMode (setHead h w) = internalDarkMode w"
  "isTransitioning (setHead h w) = isTransitioning w"
  "storage (setHead h w) = storage w"
  "rootClasses (setHead h w) = rootClasses w"
  "pendingUpdates (setHead h w) = pendingUpdates w"
  "awaiting (setHead h w) = awaiting w"
  "timers (setHead h w) = timers w"
  "innerWidth (setHead h w) = innerWidth w"
  "innerHeight (setHead h w) = innerHeight w"
  "refCurrent (setHead h w) = refCurrent w"
  "prefersDark (setHead h w) = prefersDark w"
  "prefersReducedMotion (setHead h w) = prefersReducedMotion w"
  by (simp_all add: setHead_def)

lemma isDarkMode_cong [simp]:
  "isDarkMode cfg (logEvent e w) = isDarkMode cfg w"
  "isDarkMode cfg (setHead h w) = isDarkMode cfg w"
  by (simp_all add: isDarkMode_def split: option.splits)

lemma runThemeEffect_fields [simp]:
  "trace (runThemeEffect cfg ev w) = trace w"
  "docHead (runThemeEffect cfg ev w) = docHead w"
  "snapshots (runThemeEffect cfg ev w) = snapshots w"
  "internalDarkMode (runThemeEffect cfg ev w) = internalDarkMode w"
  "isTransitioning (runThemeEffect cfg ev w) = isTransitioning w"
  "pendingUpdates (runThemeEffect cfg ev w) = pendingUpdates w"
  "awaiting (runThemeEffect cfg ev w) = awaiting w"
  "timers (runThemeEffect cfg ev w) = timers w"
  "innerWidth (runThemeEffect cfg ev w) = innerWidth w"
  "innerHeight (runThemeEffect cfg ev w) = innerHeight w"
  "refCurrent (runThemeEffect cfg ev w) = refCurrent w"
  "prefersDark (runThemeEffect cfg ev w) = prefersDark w"
  "prefersReducedMotion (runThemeEffect cfg ev w) = prefersReducedMotion w"
  by (simp_all add: runThemeEffect_def applyTheme_def classListAdd_def classListRemove_def
      split: option.splits)

lemma updateDarkMode_fields [simp]:
  "docHead (updateDarkMode cfg ev v w) = docHead w"
  "snapshots (updateDarkMode cfg ev v w) = snapshots w"
  "isTransitioning (updateDarkMode cfg ev v w) = isTransitioning w"
  "pendingUpdates (updateDarkMode cfg ev v w) = pendingUpdates w"
  "awaiting (updateDarkMode cfg ev v w) = awaiting w"
  "timers (updateDarkMode cfg ev v w) = timers w"
  "innerWidth (updateDarkMode cfg ev v w) = innerWidth w"
  "innerHeight (updateDarkMode cfg ev v w) = innerHeight w"
  "refCurrent (updateDarkMode cfg ev v w) = refCurrent w"
  "prefersDark (updateDarkMode cfg ev v w) = prefersDark w"
  "prefersReducedMotion (updateDarkMode cfg ev v w) = prefersReducedMotion w"
  by (simp_all add: updateDarkMode_def setInternalDarkMode_def rerender_def)

lemma updateDarkMode_trace:
  "trace (updateDarkMode cfg ev v w) =
     trace w @ [if onDarkModeChange cfg then ChangeCallback v else InternalSet v]"
  by (simp add: updateDarkMode_def setInternalDarkMode_def rerender_def)

lemma updateDarkMode_internal:
  "internalDarkMode (updateDarkMode cfg ev v w) =
     (if onDarkModeChange cfg then internalDarkMode w else v)"
  by (simp add: updateDarkMode_def setInternalDarkMode_def rerender_def)

lemma newEvents_append [simp]: "trace w' = trace w @ evs \<Longrightarrow> newEvents w w' = evs"
  by (simp add: newEvents_def)

text \<open>
  Claim C8. The initial theme is \<open>True\<close> for a stored \<^verbatim>\<open>"dark"\<close>, \<open>False\<close> for a stored
  \<^verbatim>\<open>"light"\<close>, the ambient dark preference when nothing is stored and the ambient
  preference is respected, \<open>False\<close> when nothing is stored and it is not respected, and
  \<open>False\<close> outside a browser. It is the internal state the hook mounts with.
\<close>

theorem getInitialTheme_cases:
  "(isBrowser ev \<and> storage w (storageKey cfg) = Some ''dark'' \<longrightarrow> getInitialTheme cfg ev w) \<and>
   (isBrowser ev \<and> storage w (storageKey cfg) = Some ''light'' \<longrightarrow> \<not> getInitialTheme cfg ev w) \<and>
   (isBrowser ev \<and> storage w (storageKey cfg) = None \<and> respectSystemPreference cfg
      \<longrightarrow> getInitialTheme cfg ev w = prefersDark w) \<and>
   (isBrowser ev \<and> storage w (storageKey cfg) = None \<and> \<not> respectSystemPreference cfg
      \<longrightarrow> \<not> getInitialTheme cfg ev w) \<and>
   (\<not> isBrowser ev \<longrightarrow> \<not> getInitialTheme cfg ev w) \<and>
   internalDarkMode (mount cfg ev w) = getInitialTheme cfg ev w"
  by (auto simp add: getInitialTheme_def mount_def injectBaseStyle_def appendChild_def Let_def
      split: option.splits)

theorem getInitialTheme_cases_witness:
  "getInitialTheme defaultOptions browserEnv (freshWorld\<lparr>storage := [''theme'' \<mapsto> ''dark'']\<rparr>) \<and>
   \<not> getInitialTheme defaultOptions browserEnv
       (freshWorld\<lparr>storage := [''theme'' \<mapsto> ''light''], prefersDark := True\<rparr>) \<and>
   getInitialTheme defaultOptions browserEnv (freshWorld\<lparr>prefersDark := True\<rparr>) \<and>
   \<not> getInitialTheme (defaultOptions\<lparr>respectSystemPreference := False\<rparr>) browserEnv
       (freshWorld\<lparr>prefersDark := True\<rparr>) \<and>
   \<not> getInitialTheme defaultOptions (browserEnv\<lparr>isBrowser := False\<rparr>)
       (freshWorld\<lparr>storage := [''theme'' \<mapsto> ''dark'']\<rparr>)"
  using getInitialTheme_cases [of browserEnv "freshWorld\<lparr>storage := [''theme'' \<mapsto> ''dark'']\<rparr>" defaultOptions]
    getInitialTheme_cases [of browserEnv "freshWorld\<lparr>storage := [''theme'' \<mapsto> ''light''], prefersDark := True\<rparr>" defaultOptions]
    getInitialTheme_cases [of browserEnv "freshWorld\<lparr>prefersDark := True\<rparr>" defaultOptions]
    getInitialTheme_cases [of browserEnv "freshWorld\<lparr>prefersDark := True\<rparr>" "defaultOptions\<lparr>respectSystemPreference := False\<rparr>"]
    getInitialTheme_cases [of "browserEnv\<lparr>isBrowser := False\<rparr>" "freshWorld\<lparr>storage := [''theme'' \<mapsto> ''dark'']\<rparr>" defaultOptions]
  by (simp add: defaultOptions_def browserEnv_def freshWorld_def)

lemma appendChild_fields [simp]:
  "trace (appendChild e w) = trace w @ [StyleAppended (elemId e)]"
  "docHead (appendChild e w) = docHead w @ [e]"
  "snapshots (appendChild e w) = snapshots w @ [docHead w @ [e]]"
  "internalDarkMode (appendChild e w) = internalDarkMode w"
  "isTransitioning (appendChild e w) = isTransitioning w"
  "storage (appendChild e w) = storage w"
  "rootClasses (appendChild e w) = rootClasses w"
  "pendingUpdates (appendChild e w) = pendingUpdates w"
  "awaiting (appendChild e w) = awaiting w"
  "timers (appendChild e w) = timers w"
  "innerWidth (appendChild e w) = innerWidth w"
  "innerHeight (appendChild e w) = innerHeight w"
  "refCurrent (appendChild e w) = refCurrent w"
  "prefersDark (appendChild e w) = prefersDark w"
  "prefersReducedMotion (appendChild e w) = prefersReducedMotion w"
  "isDarkMode cfg (appendChild e w) = isDarkMode cfg w"
  by (simp_all add: appendChild_def)

lemma removeExisting_fields [simp]:
  "internalDarkMode (removeExisting i w) = internalDarkMode w"
  "isTransitioning (removeExisting i w) = isTransitioning w"
  "storage (removeExisting i w) = storage w"
  "rootClasses (removeExisting i w) = rootClasses w"
  "pendingUpdates (removeExisting i w) = pendingUpdates w"
  "awaiting (removeExisting i w) = awaiting w"
  "timers (removeExisting i w) = timers w"
  "innerWidth (removeExisting i w) = innerWidth w"
  "innerHeight (removeExisting i w) = innerHeight w"
  "refCurrent (removeExisting i w) = refCurrent w"
  "prefersDark (removeExisting i w) = prefersDark w"
  "prefersReducedMotion (removeExisting i w) = prefersReducedMotion w"
  "isDarkMode cfg (removeExisting i w) = isDarkMode cfg w"
  by (simp_all add: removeExisting_def split: option.splits)

lemma removeExisting_trace:
  "trace (removeExisting i w) =
     trace w @ (if getElementById i (docHead w) = None then [] else [StyleRemoved i])"
  by (simp add: removeExisting_def split: option.splits)

lemma find_None_removeFirst:
  "find (\<lambda>e. elemId e = i) h = None \<Longrightarrow> removeFirst i h = h"
  by (induction h) (auto split: if_splits)

lemma removeExisting_head:
  "docHead (removeExisting i w) = (if i = [] then docHead w else removeFirst i (docHead w))"
  by (simp add: removeExisting_def getElementById_def find_None_removeFirst split: option.splits)

lemma removeExisting_logEvent [simp]:
  "docHead (removeExisting i (logEvent e w)) = docHead (removeExisting i w)"
  "snapshots (removeExisting i (logEvent e w)) = snapshots (removeExisting i w)"
  by (simp_all add: removeExisting_def split: option.splits)

lemma setIsTransitioning_fields [simp]:
  "trace (setIsTransitioning v w) = trace w @ [TransitioningSet v]"
  "docHead (setIsTransitioning v w) = docHead w"
  "snapshots (setIsTransitioning v w) = snapshots w"
  "internalDarkMode (setIsTransitioning v w) = internalDarkMode w"
  "isTransitioning (setIsTransitioning v w) = v"
  "storage (setIsTransitioning v w) = storage w"
  "rootClasses (setIsTransitioning v w) = rootClasses w"
  "pendingUpdates (setIsTransitioning v w) = pendingUpdates w"
  "awaiting (setIsTransitioning v w) = awaiting w"
  "timers (setIsTransitioning v w) = timers w"
  "innerWidth (setIsTransitioning v w) = innerWidth w"
  "innerHeight (setIsTransitioning v w) = innerHeight w"
  "refCurrent (setIsTransitioning v w) = refCurrent w"
  "prefersDark (setIsTransitioning v w) = prefersDark w"
  "prefersReducedMotion (setIsTransitioning v w) = prefersReducedMotion w"
  "isDarkMode cfg (setIsTransitioning v w) = isDarkMode cfg w"
  by (simp_all add: setIsTransitioning_def isDarkMode_def split: option.splits)

lemma startViewTransition_fields [simp]:
  "trace (startViewTransition b w) = trace w @ [TransitionStarted]"
  "docHead (startViewTransition b w) = docHead w"
  "snapshots (startViewTransition b w) = snapshots w"
  "internalDarkMode (startViewTransition b w) = internalDarkMode w"
  "isTransitioning (startViewTransition b w) = isTransitioning w"
  "storage (startViewTransition b w) = storage w"
  "rootClasses (startViewTransition b w) = rootClasses w"
  "pendingUpdates (startViewTransition b w) = pendingUpdates w @ [b]"
  "awaiting (startViewTransition b w) = awaiting w"
  "timers (startViewTransition b w) = timers w"
  "innerWidth (startViewTransition b w) = innerWidth w"
  "innerHeight (startViewTransition b w) = innerHeight w"
  "refCurrent (startViewTransition b w) = refCurrent w"
  "prefersDark (startViewTransition b w) = prefersDark w"
  "prefersReducedMotion (startViewTransition b w) = prefersReducedMotion w"
  "isDarkMode cfg (startViewTransition b w) = isDarkMode cfg w"
  by (simp_all add: startViewTransition_def isDarkMode_def split: option.splits)

lemmas applyDefs = applyFadeTransition_def applySlideTransition_def applyBlurCircleTransition_def

lemma setTheme_direct:
  "directPath cfg ev w \<Longrightarrow> setTheme cfg ev b w = updateDarkMode cfg ev b w"
  by (auto simp add: setTheme_def directPath_def)

lemma setTheme_animated_trace:
  assumes "\<not> directPath cfg ev w"
  shows "trace (setTheme cfg ev b w) =
     trace w @ [AnchorResolved (fst (resolveAnchor w)) (snd (resolveAnchor w))] @
       (if getElementById (styleId cfg) (docHead w) = None then [] else [StyleRemoved (styleId cfg)]) @
       (if animationType cfg = CIRCLE
        then [TransitioningSet True, TransitionStarted, StyleAppended (styleId cfg)]
        else [StyleAppended (styleId cfg), TransitioningSet True, TransitionStarted])"
  using assms
  by (cases "animationType cfg")
    (simp_all add: setTheme_def directPath_def applyDefs removeExisting_trace split: prod.splits)

lemma setTheme_animated_state:
  assumes "\<not> directPath cfg ev w"
  shows "internalDarkMode (setTheme cfg ev b w) = internalDarkMode w"
    "isTransitioning (setTheme cfg ev b w)"
    "pendingUpdates (setTheme cfg ev b w) = pendingUpdates w @ [b]"
    "awaiting (setTheme cfg ev b w) = Suc (awaiting w)"
    "storage (setTheme cfg ev b w) = storage w"
    "prefersReducedMotion (setTheme cfg ev b w) = prefersReducedMotion w"
  using assms
  by (cases "animationType cfg";
    simp add: setTheme_def directPath_def applyDefs split: prod.splits)+

text \<open>
  Claim C1, amended. The mask keyframes of the blur-circle fragment grow the mask from
  \<^verbatim>\<open>0px\<close> to the longer side of the viewport times 5.5, and this is the fragment that
  \<open>applyBlurCircleTransition\<close> attaches.
\<close>

theorem blur_mask_end_size:
  "keyframeValue ''maskScale'' ''0%'' ''mask-size'' (blurCircleCss cfg x y vw vh) = Some [Txt ''0px''] \<and>
   keyframeValue ''maskScale'' ''100%'' ''mask-size'' (blurCircleCss cfg x y vw vh)
     = Some [Num (max vw vh * 5.5), Txt ''px''] \<and>
   docHead (applyBlurCircleTransition cfg x y w) =
     docHead w @ [\<lparr>elemId = styleId cfg,
                    textContent = blurCircleCss cfg x y (innerWidth w) (innerHeight w)\<rparr>]"
  by (simp add: keyframeValue_def blurCircleCss_def groupRule_def fadeOutKeyframes_def
      scaleFactor_def applyBlurCircleTransition_def Let_def)

lemma hypot_400_300: "hypot 400 300 = 500"
proof -
  have "(400::real)\<^sup>2 + 300\<^sup>2 = 500\<^sup>2" by simp
  then have "sqrt ((400::real)\<^sup>2 + 300\<^sup>2) = sqrt (500\<^sup>2)" by (rule arg_cong)
  then show ?thesis by (simp add: hypot_def)
qed

text \<open>
  Claim C1 as stated fails: in a 400 by 300 viewport the diagonal is 500, and the end size
  is 2200 pixels, not 2750.
\<close>

theorem blur_mask_diagonal_counterexample:
  "keyframeValue ''maskScale'' ''100%'' ''mask-size'' (blurCircleCss defaultOptions 200 150 400 300)
     \<noteq> Some [Num (hypot 400 300 * 5.5), Txt ''px'']"
  by (simp add: keyframeValue_def blurCircleCss_def groupRule_def fadeOutKeyframes_def
      scaleFactor_def hypot_400_300 Let_def)

text \<open>
  Claim C3, amended. On the animated path the fade, slide and blur-circle fragments are
  attached before the transition is started; the circle fragment is attached after the
  start-transition call is issued.
\<close>

theorem synthesis_order:
  assumes "\<not> directPath cfg ev w"
  shows "synthesisOrder (newEvents w (setTheme cfg ev b w)) =
           (if animationType cfg = CIRCLE
            then [TransitionStarted, StyleAppended (styleId cfg)]
            else [StyleAppended (styleId cfg), TransitionStarted]) \<and>
         synthesisBeforeStart (newEvents w (setTheme cfg ev b w)) = (animationType cfg \<noteq> CIRCLE)"
  by (simp add: newEvents_append [OF setTheme_animated_trace [OF assms]]
      synthesisOrder_def synthesisBeforeStart_def)

lemma defaultOptions_fields [simp]:
  "styleId defaultOptions = ''theme-transition-style''"
  "animationType defaultOptions = CIRCLE"
  "onDarkModeChange defaultOptions = False"
  "externalDarkMode defaultOptions = None"
  "storageKey defaultOptions = ''theme''"
  "respectSystemPreference defaultOptions = True"
  by (simp_all add: defaultOptions_def)

lemma freshWorld_fields [simp]:
  "docHead freshWorld = []"
  "trace freshWorld = []"
  "snapshots freshWorld = [[]]"
  "pendingUpdates freshWorld = []"
  "internalDarkMode freshWorld = False"
  "isTransitioning freshWorld = False"
  "prefersReducedMotion freshWorld = False"
  "refCurrent freshWorld = None"
  "innerWidth freshWorld = 1280"
  "innerHeight freshWorld = 720"
  "storage freshWorld = Map.empty"
  by (simp_all add: freshWorld_def)

lemma browserEnv_fields [simp]:
  "isBrowser browserEnv"
  "hasStartViewTransition browserEnv"
  by (simp_all add: browserEnv_def)

lemma fresh_animated:
  "animationType cfg \<noteq> NONE \<Longrightarrow> \<not> directPath cfg browserEnv freshWorld"
  by (simp add: directPath_def browserEnv_def freshWorld_def)

theorem synthesis_order_witness:
  "synthesisOrder (newEvents freshWorld
      (setTheme (defaultOptions\<lparr>animationType := FADE\<rparr>) browserEnv True freshWorld)) =
     [StyleAppended ''theme-transition-style'', TransitionStarted]"
proof -
  have "\<not> directPath (defaultOptions\<lparr>animationType := FADE\<rparr>) browserEnv freshWorld"
    by (simp add: fresh_animated)
  from synthesis_order [OF this, of True] show ?thesis by simp
qed

text \<open>
  Claim C3 as stated fails for the circle kind (the default): no fragment is attached
  before the transition starts.
\<close>

theorem circle_synthesis_counterexample:
  "\<not> synthesisBeforeStart (newEvents freshWorld (setTheme defaultOptions browserEnv True freshWorld))"
proof -
  have d: "\<not> directPath defaultOptions browserEnv freshWorld"
    by (simp add: fresh_animated)
  have "getElementById ''theme-transition-style'' (docHead freshWorld) = None"
    by (simp add: getElementById_def freshWorld_def)
  then show ?thesis
    by (simp add: newEvents_append [OF setTheme_animated_trace [OF d]] synthesisBeforeStart_def)
qed

text \<open>
  Claim C6. On the direct path (no browser, no start-transition primitive, reduced motion,
  or the kind \<open>NONE\<close>) \<open>setTheme\<close> performs the update within the call and nothing else:
  its only event is the internal update (or the change callback when one is supplied), so
  no anchor is resolved, no fragment is created and no transition is started; the document
  head, the queue of transition callbacks, the timers and the flag are untouched.
\<close>

theorem setTheme_direct_path:
  assumes "directPath cfg ev w"
  shows "newEvents w (setTheme cfg ev b w) =
           [if onDarkModeChange cfg then ChangeCallback b else InternalSet b] \<and>
         filter (\<lambda>e. isAnchor e \<or> isAppend e \<or> isStart e)
           (newEvents w (setTheme cfg ev b w)) = [] \<and>
         (\<not> onDarkModeChange cfg \<longrightarrow> internalDarkMode (setTheme cfg ev b w) = b) \<and>
         (\<not> onDarkModeChange cfg \<and> externalDarkMode cfg = None \<longrightarrow>
            isDarkMode cfg (setTheme cfg ev b w) = b) \<and>
         docHead (setTheme cfg ev b w) = docHead w \<and>
         snapshots (setTheme cfg ev b w) = snapshots w \<and>
         pendingUpdates (setTheme cfg ev b w) = pendingUpdates w \<and>
         awaiting (setTheme cfg ev b w) = awaiting w \<and>
         timers (setTheme cfg ev b w) = timers w \<and>
         isTransitioning (setTheme cfg ev b w) = isTransitioning w"
  by (simp add: setTheme_direct [OF assms] updateDarkMode_trace updateDarkMode_internal
      isDarkMode_def)

theorem setTheme_direct_path_witness:
  "internalDarkMode (setTheme defaultOptions browserEnv True (freshWorld\<lparr>prefersReducedMotion := True\<rparr>)) \<and>
   newEvents (freshWorld\<lparr>prefersReducedMotion := True\<rparr>)
     (setTheme defaultOptions browserEnv True (freshWorld\<lparr>prefersReducedMotion := True\<rparr>)) = [InternalSet True] \<and>
   docHead (setTheme defaultOptions browserEnv True (freshWorld\<lparr>prefersReducedMotion := True\<rparr>)) = []"
proof -
  have "directPath defaultOptions browserEnv (freshWorld\<lparr>prefersReducedMotion := True\<rparr>)"
    by (simp add: directPath_def)
  from setTheme_direct_path [OF this, of True] show ?thesis
    by simp
qed

lemma sq_max_le:
  fixes x vw :: real
  assumes "0 \<le> vw"
  shows "x\<^sup>2 \<le> (max x (vw - x))\<^sup>2" "(x - vw)\<^sup>2 \<le> (max x (vw - x))\<^sup>2"
proof -
  have "\<bar>x\<bar> \<le> max x (vw - x)" using assms by (simp add: max_def abs_if)
  then have "\<bar>x\<bar> \<le> \<bar>max x (vw - x)\<bar>" by simp
  then show "x\<^sup>2 \<le> (max x (vw - x))\<^sup>2" by (simp only: abs_le_square_iff)
  have "\<bar>x - vw\<bar> \<le> max x (vw - x)" using assms by (simp add: max_def abs_if)
  then have "\<bar>x - vw\<bar> \<le> \<bar>max x (vw - x)\<bar>" by simp
  then show "(x - vw)\<^sup>2 \<le> (max x (vw - x))\<^sup>2" by (simp only: abs_le_square_iff)
qed

lemma sq_max_cases:
  fixes x vw :: real
  shows "(max x (vw - x))\<^sup>2 = x\<^sup>2 \<or> (max x (vw - x))\<^sup>2 = (x - vw)\<^sup>2"
  by (simp add: max_def power2_commute)

lemma maxRadius_farthest:
  assumes "0 \<le> vw" "0 \<le> vh"
  shows "maxRadius x y vw vh = farthestCornerDistance x y vw vh"
proof -
  let ?mx = "(max x (vw - x))\<^sup>2" and ?my = "(max y (vh - y))\<^sup>2"
  have r: "maxRadius x y vw vh = sqrt (?mx + ?my)"
    by (simp add: maxRadius_def hypot_def)
  have ub: "cornerDistance x y 0 0 \<le> sqrt (?mx + ?my)"
           "cornerDistance x y vw 0 \<le> sqrt (?mx + ?my)"
           "cornerDistance x y 0 vh \<le> sqrt (?mx + ?my)"
           "cornerDistance x y vw vh \<le> sqrt (?mx + ?my)"
    unfolding cornerDistance_def
    using sq_max_le [OF assms(1), of x] sq_max_le [OF assms(2), of y]
    by (auto intro!: real_sqrt_le_mono add_mono)
  have att: "sqrt (?mx + ?my) = cornerDistance x y 0 0 \<or> sqrt (?mx + ?my) = cornerDistance x y vw 0
           \<or> sqrt (?mx + ?my) = cornerDistance x y 0 vh \<or> sqrt (?mx + ?my) = cornerDistance x y vw vh"
    unfolding cornerDistance_def
    using sq_max_cases [of x vw] sq_max_cases [of y vh] by auto
  show ?thesis
    unfolding r farthestCornerDistance_def using ub att by (auto simp add: max_def)
qed

lemma setTheme_circle_head:
  assumes "\<not> directPath cfg ev w" "animationType cfg = CIRCLE"
  shows "docHead (setTheme cfg ev b w) =
           docHead (removeExisting (styleId cfg) w) @
           [\<lparr>elemId = styleId cfg,
             textContent = circleCss cfg (fst (resolveAnchor w)) (snd (resolveAnchor w))
                             (innerWidth w) (innerHeight w)\<rparr>]"
  using assms
  by (simp add: setTheme_def directPath_def split: prod.splits)

text \<open>
  Claim C7. The anchor is the centre of the bound element's bounding box when an element
  is bound and the viewport centre otherwise. The reveal radius is
  \<open>hypot (max x (vw - x)) (max y (vh - y))\<close>, which for a viewport (non-negative width and
  height) is the distance from the anchor to the farthest corner; it is the end radius of
  the circle fragment that \<open>setTheme\<close> attaches.
\<close>

theorem anchor_and_maxRadius:
  "(refCurrent w = Some r \<longrightarrow>
      resolveAnchor w = (rectLeft r + rectWidth r / 2, rectTop r + rectHeight r / 2)) \<and>
   (refCurrent w = None \<longrightarrow> resolveAnchor w = (innerWidth w / 2, innerHeight w / 2)) \<and>
   maxRadius x y vw vh = hypot (max x (vw - x)) (max y (vh - y)) \<and>
   (0 \<le> vw \<and> 0 \<le> vh \<longrightarrow> maxRadius x y vw vh = farthestCornerDistance x y vw vh) \<and>
   keyframeValue ''expandCircle'' ''to'' ''clip-path'' (circleCss cfg x y vw vh)
     = Some (circle (Num (maxRadius x y vw vh)) x y) \<and>
   (\<not> directPath cfg ev w \<and> animationType cfg = CIRCLE \<longrightarrow>
      last (docHead (setTheme cfg ev b w)) =
        \<lparr>elemId = styleId cfg,
         textContent = circleCss cfg (fst (resolveAnchor w)) (snd (resolveAnchor w))
                         (innerWidth w) (innerHeight w)\<rparr>)"
  by (simp add: resolveAnchor_def maxRadius_farthest setTheme_circle_head
      keyframeValue_def circleCss_def Let_def)
    (simp add: maxRadius_def)

theorem anchor_and_maxRadius_witness:
  "resolveAnchor freshWorld = (640, 360) \<and>
   resolveAnchor (freshWorld\<lparr>refCurrent :=
       Some \<lparr>rectTop = 10, rectLeft = 20, rectWidth = 40, rectHeight = 30\<rparr>\<rparr>) = (40, 25) \<and>
   maxRadius 0 0 100 100 = sqrt 20000 \<and>
   farthestCornerDistance 0 0 100 100 = sqrt 20000 \<and>
   last (docHead (setTheme defaultOptions browserEnv True freshWorld)) =
     \<lparr>elemId = ''theme-transition-style'',
      textContent = circleCss defaultOptions 640 360 1280 720\<rparr>"
proof -
  let ?r = "\<lparr>rectTop = 10, rectLeft = 20, rectWidth = 40, rectHeight = 30\<rparr>"
  note t = anchor_and_maxRadius [where w = freshWorld and x = 0 and y = 0 and vw = 100
      and vh = 100 and cfg = defaultOptions and ev = browserEnv and b = True]
  note u = anchor_and_maxRadius [where w = "freshWorld\<lparr>refCurrent := Some ?r\<rparr>" and r = ?r]
  have d: "\<not> directPath defaultOptions browserEnv freshWorld"
    by (simp add: fresh_animated)
  from t have "refCurrent freshWorld = None \<longrightarrow>
      resolveAnchor freshWorld = (innerWidth freshWorld / 2, innerHeight freshWorld / 2)"
    by blast
  then have a: "resolveAnchor freshWorld = (640, 360)" by simp
  from u have "refCurrent (freshWorld\<lparr>refCurrent := Some ?r\<rparr>) = Some ?r \<longrightarrow>
      resolveAnchor (freshWorld\<lparr>refCurrent := Some ?r\<rparr>) =
        (rectLeft ?r + rectWidth ?r / 2, rectTop ?r + rectHeight ?r / 2)"
    by blast
  then have b: "resolveAnchor (freshWorld\<lparr>refCurrent := Some ?r\<rparr>) = (40, 25)" by simp
  from t have "maxRadius 0 0 100 100 = hypot (max 0 (100 - 0)) (max 0 (100 - 0))"
    by blast
  then have c: "maxRadius 0 0 100 100 = sqrt 20000" by (simp add: hypot_def)
  from t have "(0::real) \<le> 100 \<and> (0::real) \<le> 100 \<longrightarrow>
      maxRadius 0 0 100 100 = farthestCornerDistance 0 0 100 100"
    by blast
  with c have e: "farthestCornerDistance 0 0 100 100 = sqrt 20000" by simp
  from t have "\<not> directPath defaultOptions browserEnv freshWorld \<and>
      animationType defaultOptions = CIRCLE \<longrightarrow>
      last (docHead (setTheme defaultOptions browserEnv True freshWorld)) =
        \<lparr>elemId = styleId defaultOptions,
         textContent = circleCss defaultOptions (fst (resolveAnchor freshWorld))
           (snd (resolveAnchor freshWorld)) (innerWidth freshWorld) (innerHeight freshWorld)\<rparr>"
    by blast
  with d a have f: "last (docHead (setTheme defaultOptions browserEnv True freshWorld)) =
     \<lparr>elemId = ''theme-transition-style'',
      textContent = circleCss defaultOptions 640 360 1280 720\<rparr>"
    by simp
  from a b c e f show ?thesis by blast
qed

text \<open>
  Claim C5. The \<open>toggleTheme\<close> of a render whose \<open>isTransitioning\<close> is true changes
  nothing, in whatever state it is called: the theme state, the document head and the
  trace (so no fragment, no started transition) are as before. The \<open>toggleTheme\<close> of any
  other render is \<open>setTheme\<close> of the negation of that render's theme state. So for the
  function of the render of the current state: it is a no-op when the state is transitioning
  and \<open>setTheme\<close> of the negated current theme state otherwise, and once the hook has
  rendered the state an animated \<open>setTheme\<close> leaves, its \<open>toggleTheme\<close> is rejected.
\<close>

theorem toggleTheme_guard:
  "(resultIsTransitioning r \<longrightarrow>
      toggleTheme cfg ev r w = w \<and>
      isDarkMode cfg (toggleTheme cfg ev r w) = isDarkMode cfg w \<and>
      docHead (toggleTheme cfg ev r w) = docHead w \<and>
      newEvents w (toggleTheme cfg ev r w) = []) \<and>
   (\<not> resultIsTransitioning r \<longrightarrow>
      toggleTheme cfg ev r w = setTheme cfg ev (\<not> resultIsDarkMode r) w) \<and>
   (isTransitioning w \<longrightarrow> toggleTheme cfg ev (useThemeTransition cfg w) w = w) \<and>
   (\<not> isTransitioning w \<longrightarrow>
      toggleTheme cfg ev (useThemeTransition cfg w) w = setTheme cfg ev (\<not> isDarkMode cfg w) w) \<and>
   (\<not> directPath cfg ev w \<longrightarrow>
      toggleTheme cfg ev (useThemeTransition cfg (setTheme cfg ev b w)) (setTheme cfg ev b w)
        = setTheme cfg ev b w)"
  by (simp add: toggleTheme_def useThemeTransition_def newEvents_def setTheme_animated_state)

theorem toggleTheme_guard_witness:
  "toggleTheme defaultOptions browserEnv
     (useThemeTransition defaultOptions (freshWorld\<lparr>isTransitioning := True\<rparr>))
     (freshWorld\<lparr>isTransitioning := True\<rparr>)
     = freshWorld\<lparr>isTransitioning := True\<rparr> \<and>
   toggleTheme defaultOptions browserEnv (useThemeTransition defaultOptions freshWorld) freshWorld
     = setTheme defaultOptions browserEnv True freshWorld \<and>
   toggleTheme defaultOptions browserEnv
     (useThemeTransition defaultOptions (setTheme defaultOptions browserEnv True freshWorld))
     (setTheme defaultOptions browserEnv True freshWorld)
     = setTheme defaultOptions browserEnv True freshWorld"
proof -
  note t = toggleTheme_guard [where cfg = defaultOptions and ev = browserEnv and b = True]
  have "isTransitioning (freshWorld\<lparr>isTransitioning := True\<rparr>)" by simp
  with t [where w = "freshWorld\<lparr>isTransitioning := True\<rparr>"]
  have a: "toggleTheme defaultOptions browserEnv
     (useThemeTransition defaultOptions (freshWorld\<lparr>isTransitioning := True\<rparr>))
     (freshWorld\<lparr>isTransitioning := True\<rparr>)
     = freshWorld\<lparr>isTransitioning := True\<rparr>" by blast
  have f: "\<not> isTransitioning freshWorld" "\<not> isDarkMode defaultOptions freshWorld"
    "\<not> directPath defaultOptions browserEnv freshWorld"
    by (simp_all add: isDarkMode_def fresh_animated)
  from t [where w = freshWorld] f(1)
  have "toggleTheme defaultOptions browserEnv (useThemeTransition defaultOptions freshWorld) freshWorld
      = setTheme defaultOptions browserEnv (\<not> isDarkMode defaultOptions freshWorld) freshWorld"
    by blast
  with f(2) have b: "toggleTheme defaultOptions browserEnv
      (useThemeTransition defaultOptions freshWorld) freshWorld
      = setTheme defaultOptions browserEnv True freshWorld" by simp
  from t [where w = freshWorld] f(3)
  have c: "toggleTheme defaultOptions browserEnv
     (useThemeTransition defaultOptions (setTheme defaultOptions browserEnv True freshWorld))
     (setTheme defaultOptions browserEnv True freshWorld)
     = setTheme defaultOptions browserEnv True freshWorld" by blast
  from a b c show ?thesis by blast
qed

text \<open>
  The function of a render that is not transitioning is not rejected by a flag that was set
  after that render: called again after its own animated \<open>setTheme\<close>, before the hook has
  rendered again, it starts a second transition.
\<close>

lemma stale_toggleTheme_runs_again:
  "started
     (toggleTheme defaultOptions browserEnv (useThemeTransition defaultOptions freshWorld)
        (toggleTheme defaultOptions browserEnv (useThemeTransition defaultOptions freshWorld)
           freshWorld)) = 2"
proof -
  let ?w = "setTheme defaultOptions browserEnv True freshWorld"
  have t: "toggleTheme defaultOptions browserEnv (useThemeTransition defaultOptions freshWorld) v
      = setTheme defaultOptions browserEnv True v" for v
    by (simp add: toggleTheme_def useThemeTransition_def isDarkMode_def)
  have d: "\<not> directPath defaultOptions browserEnv freshWorld"
    by (simp add: fresh_animated)
  have d': "\<not> directPath defaultOptions browserEnv ?w"
    using d by (simp add: directPath_def setTheme_animated_state(6) [OF d])
  show ?thesis
    unfolding t started_def
    by (simp add: setTheme_animated_trace [OF d'] setTheme_animated_trace [OF d])
qed

lemma updateDarkMode_same:
  "isDarkMode cfg w = b \<Longrightarrow> isDarkMode cfg (updateDarkMode cfg ev b w) = b"
  by (auto simp add: isDarkMode_def updateDarkMode_internal split: option.splits)

lemma setTheme_animated_head:
  assumes "\<not> directPath cfg ev w"
  shows "docHead (setTheme cfg ev b w) = docHead (removeExisting (styleId cfg) w) @
     [\<lparr>elemId = styleId cfg,
       textContent =
         (case animationType cfg of
            FADE \<Rightarrow> fadeCss cfg
          | SLIDE \<Rightarrow> slideCss cfg
          | BLUR_CIRCLE \<Rightarrow> blurCircleCss cfg (fst (resolveAnchor w)) (snd (resolveAnchor w))
                             (innerWidth w) (innerHeight w)
          | _ \<Rightarrow> circleCss cfg (fst (resolveAnchor w)) (snd (resolveAnchor w))
                             (innerWidth w) (innerHeight w))\<rparr>]"
  using assms
  by (cases "animationType cfg")
    (simp_all add: setTheme_def directPath_def applyDefs split: prod.splits)

lemma setTheme_same:
  assumes "isDarkMode cfg w = b"
  shows "isDarkMode cfg (setTheme cfg ev b w) = b"
proof (cases "directPath cfg ev w")
  case True
  then show ?thesis using assms by (simp add: setTheme_direct updateDarkMode_same)
next
  case False
  then show ?thesis
    using assms by (simp add: isDarkMode_def setTheme_animated_state(1) split: option.splits)
qed

text \<open>
  Claim C2, amended. When the theme state already equals \<open>b\<close>, \<open>setTheme b\<close> leaves it
  equal to \<open>b\<close>, also once the platform has run the transition callback. On the direct
  path it creates no fragment and starts no transition; on the animated path every call,
  this one included, attaches one more fragment and starts one more transition.
\<close>

theorem setTheme_repeated:
  assumes "isDarkMode cfg w = b"
  shows "isDarkMode cfg (setTheme cfg ev b w) = b \<and>
         (pendingUpdates w = [] \<longrightarrow>
            isDarkMode cfg (run cfg ev [SetTheme b, TransitionCallback] w) = b) \<and>
         (directPath cfg ev w \<longrightarrow>
            started (setTheme cfg ev b w) = started w \<and>
            appended (styleId cfg) (setTheme cfg ev b w) = appended (styleId cfg) w \<and>
            docHead (setTheme cfg ev b w) = docHead w) \<and>
         (\<not> directPath cfg ev w \<longrightarrow>
            started (setTheme cfg ev b w) = Suc (started w) \<and>
            appended (styleId cfg) (setTheme cfg ev b w) = Suc (appended (styleId cfg) w))"
proof (intro conjI impI)
  show s: "isDarkMode cfg (setTheme cfg ev b w) = b"
    using assms by (rule setTheme_same)
  show "isDarkMode cfg (run cfg ev [SetTheme b, TransitionCallback] w) = b"
    if p: "pendingUpdates w = []"
  proof (cases "directPath cfg ev w")
    case True
    then show ?thesis
      using s p by (simp add: transitionCallback_def setTheme_direct)
  next
    case False
    have "isDarkMode cfg ((setTheme cfg ev b w)\<lparr>pendingUpdates := []\<rparr>) = b"
      using s by (simp add: isDarkMode_def split: option.splits)
    then show ?thesis
      using p by (simp add: transitionCallback_def setTheme_animated_state(3) [OF False]
          updateDarkMode_same)
  qed
next
  assume d: "directPath cfg ev w"
  show "started (setTheme cfg ev b w) = started w"
    by (simp add: started_def setTheme_direct [OF d] updateDarkMode_trace)
  show "appended (styleId cfg) (setTheme cfg ev b w) = appended (styleId cfg) w"
    by (simp add: appended_def setTheme_direct [OF d] updateDarkMode_trace)
  show "docHead (setTheme cfg ev b w) = docHead w"
    by (simp add: setTheme_direct [OF d])
next
  assume a: "\<not> directPath cfg ev w"
  show "started (setTheme cfg ev b w) = Suc (started w)"
    by (simp add: started_def setTheme_animated_trace [OF a])
  show "appended (styleId cfg) (setTheme cfg ev b w) = Suc (appended (styleId cfg) w)"
    by (simp add: appended_def setTheme_animated_trace [OF a])
qed

lemmas evalDefs =
  setTheme_def toggleTheme_def transitionCallback_def resumeAfterReady_def cleanup_def
  updateDarkMode_def setInternalDarkMode_def rerender_def runThemeEffect_def applyTheme_def
  classListAdd_def classListRemove_def validateToken_def asciiWhitespace_def
  useThemeTransition_def isDarkMode_def
  removeExisting_def appendChild_def setHead_def logEvent_def getElementById_def
  setIsTransitioning_def startViewTransition_def resolveAnchor_def applyDefs
  freshWorld_def browserEnv_def defaultOptions_def mount_def injectBaseStyle_def baseStyle_def
  getInitialTheme_def ambientChange_def handleChange_def noStoredPreference_def
  started_def appended_def newEvents_def Let_def

lemma darkWorld_eq:
  "darkWorld =
   freshWorld\<lparr>internalDarkMode := True, docHead := [baseStyle],
     rootClasses := {''dark''}, storage := [''theme'' \<mapsto> ''dark''],
     trace := [StyleAppended ''theme-transition-base-style'', AnchorResolved 640 360,
               TransitioningSet True, TransitionStarted, StyleAppended ''theme-transition-style'',
               InternalSet True, CleanupScheduled 750, StyleRemoved ''theme-transition-style'',
               TransitioningSet False],
     snapshots := [[], [baseStyle],
        [baseStyle, \<lparr>elemId = ''theme-transition-style'',
                      textContent = circleCss defaultOptions 640 360 1280 720\<rparr>],
        [baseStyle]]\<rparr>"
  by (simp add: darkWorld_def evalDefs)

lemma darkWorld_fields [simp]:
  "\<not> directPath defaultOptions browserEnv darkWorld"
  "started darkWorld = 1"
  "isDarkMode defaultOptions darkWorld"
  "resolveAnchor darkWorld = (640, 360)"
  "getElementById ''theme-transition-style'' (docHead darkWorld) = None"
  "appended ''theme-transition-style'' darkWorld = 1"
  "pendingUpdates darkWorld = []"
  by (simp_all add: darkWorld_eq directPath_def started_def isDarkMode_def resolveAnchor_def
      getElementById_def baseStyle_def appended_def)

theorem setTheme_repeated_witness:
  "isDarkMode defaultOptions (setTheme defaultOptions browserEnv True darkWorld) \<and>
   isDarkMode defaultOptions
     (run defaultOptions browserEnv [SetTheme True, TransitionCallback] darkWorld) \<and>
   started (setTheme defaultOptions browserEnv True darkWorld) = 2"
proof -
  have h: "isDarkMode defaultOptions darkWorld = True" by simp
  from setTheme_repeated [OF h, of browserEnv] show ?thesis by simp
qed

text \<open>
  Claim C2 as stated fails: with the default options in a browser that animates, a second
  \<open>setTheme True\<close>, made when the theme is dark and the first transition has been cleaned
  up, starts a second transition and attaches a second fragment.
\<close>

theorem setTheme_twice_counterexample:
  "isDarkMode defaultOptions darkWorld \<and>
   \<not> started (setTheme defaultOptions browserEnv True darkWorld) \<le> 1 \<and>
   appended ''theme-transition-style'' (setTheme defaultOptions browserEnv True darkWorld) = 2"
proof -
  have t: "trace (setTheme defaultOptions browserEnv True darkWorld) =
      trace darkWorld @ [AnchorResolved 640 360, TransitioningSet True, TransitionStarted,
                  StyleAppended ''theme-transition-style'']"
    by (simp add: setTheme_animated_trace)
  have a: "started (setTheme defaultOptions browserEnv True darkWorld) = Suc (started darkWorld)"
    unfolding started_def t by simp
  have b: "appended ''theme-transition-style'' (setTheme defaultOptions browserEnv True darkWorld)
      = Suc (appended ''theme-transition-style'' darkWorld)"
    unfolding appended_def t by simp
  from a b show ?thesis by simp
qed

lemma setTheme_events:
  "\<exists>evs. trace (setTheme cfg ev b w) = trace w @ evs \<and>
     (onDarkModeChange cfg \<longrightarrow> filter isInternalSet evs = []) \<and>
     (\<not> onDarkModeChange cfg \<longrightarrow> filter isCallback evs = [])"
proof (cases "directPath cfg ev w")
  case True
  then show ?thesis by (simp add: setTheme_direct updateDarkMode_trace)
next
  case False
  then show ?thesis by (simp add: setTheme_animated_trace)
qed

lemma step_events:
  "\<exists>evs. trace (step cfg ev a w) = trace w @ evs \<and>
     (onDarkModeChange cfg \<longrightarrow> filter isInternalSet evs = []) \<and>
     (\<not> onDarkModeChange cfg \<longrightarrow> filter isCallback evs = [])"
proof (cases a)
  case (SetTheme b)
  then show ?thesis using setTheme_events [of cfg ev b w] by simp
next
  case (ToggleTheme r)
  then show ?thesis using setTheme_events [of cfg ev "\<not> resultIsDarkMode r" w]
    by (simp add: toggleTheme_def)
next
  case TransitionCallback
  then show ?thesis
    by (simp add: transitionCallback_def updateDarkMode_trace split: list.splits)
next
  case ReadyResume
  then show ?thesis by (simp add: resumeAfterReady_def)
next
  case CleanupTimer
  then show ?thesis by (simp add: cleanup_def removeExisting_trace)
next
  case (AmbientChange m)
  then show ?thesis
    by (simp add: ambientChange_def handleChange_def updateDarkMode_trace Let_def)
qed simp_all

lemma step_internal:
  "onDarkModeChange cfg \<Longrightarrow> internalDarkMode (step cfg ev a w) = internalDarkMode w"
proof (cases a)
  case (SetTheme b)
  assume c: "onDarkModeChange cfg"
  show ?thesis
  proof (cases "directPath cfg ev w")
    case True
    then show ?thesis using SetTheme c by (simp add: setTheme_direct updateDarkMode_internal)
  next
    case False
    then show ?thesis using SetTheme by (simp add: setTheme_animated_state)
  qed
next
  case (ToggleTheme r)
  assume c: "onDarkModeChange cfg"
  show ?thesis
  proof (cases "directPath cfg ev w")
    case True
    then show ?thesis using ToggleTheme c
      by (simp add: toggleTheme_def setTheme_direct updateDarkMode_internal)
  next
    case False
    then show ?thesis using ToggleTheme by (simp add: toggleTheme_def setTheme_animated_state)
  qed
next
  case TransitionCallback
  assume "onDarkModeChange cfg"
  then show ?thesis using TransitionCallback
    by (simp add: transitionCallback_def updateDarkMode_internal split: list.splits)
next
  case ReadyResume
  then show ?thesis by (simp add: resumeAfterReady_def)
next
  case CleanupTimer
  then show ?thesis by (simp add: cleanup_def)
next
  case (AmbientChange m)
  assume "onDarkModeChange cfg"
  then show ?thesis using AmbientChange
    by (simp add: ambientChange_def handleChange_def updateDarkMode_internal Let_def)
qed simp_all

lemma run_events:
  "\<exists>evs. trace (run cfg ev acts w) = trace w @ evs \<and>
     (onDarkModeChange cfg \<longrightarrow> filter isInternalSet evs = []) \<and>
     (\<not> onDarkModeChange cfg \<longrightarrow> filter isCallback evs = [])"
proof (induction acts arbitrary: w)
  case Nil
  show ?case by simp
next
  case (Cons a acts)
  obtain e1 where e1: "trace (step cfg ev a w) = trace w @ e1"
    "onDarkModeChange cfg \<longrightarrow> filter isInternalSet e1 = []"
    "\<not> onDarkModeChange cfg \<longrightarrow> filter isCallback e1 = []"
    using step_events [of cfg ev a w] by blast
  obtain e2 where e2: "trace (run cfg ev acts (step cfg ev a w)) = trace (step cfg ev a w) @ e2"
    "onDarkModeChange cfg \<longrightarrow> filter isInternalSet e2 = []"
    "\<not> onDarkModeChange cfg \<longrightarrow> filter isCallback e2 = []"
    using Cons.IH [of "step cfg ev a w"] by blast
  have "trace (run cfg ev (a # acts) w) = trace w @ (e1 @ e2)"
    using e1(1) e2(1) by simp
  moreover have "onDarkModeChange cfg \<longrightarrow> filter isInternalSet (e1 @ e2) = []"
    using e1(2) e2(2) by simp
  moreover have "\<not> onDarkModeChange cfg \<longrightarrow> filter isCallback (e1 @ e2) = []"
    using e1(3) e2(3) by simp
  ultimately show ?case by blast
qed

lemma run_internal:
  "onDarkModeChange cfg \<Longrightarrow> internalDarkMode (run cfg ev acts w) = internalDarkMode w"
  by (induction acts arbitrary: w) (simp_all add: step_internal)

text \<open>
  Claim C9. The reported \<open>isDarkMode\<close> is the externally supplied value when there is one
  and the internal value otherwise. The update path invokes the change callback and leaves
  the internal state alone when a callback is supplied, and sets the internal state and
  invokes nothing when none is; and along every run of the hook, with a callback the
  internal state is never set, and without one no callback is ever invoked.
\<close>

theorem isDarkMode_single_source:
  "(externalDarkMode cfg = Some ext \<longrightarrow> isDarkMode cfg w = ext) \<and>
   (externalDarkMode cfg = None \<longrightarrow> isDarkMode cfg w = internalDarkMode w) \<and>
   (onDarkModeChange cfg \<longrightarrow>
      newEvents w (updateDarkMode cfg ev v w) = [ChangeCallback v] \<and>
      internalDarkMode (updateDarkMode cfg ev v w) = internalDarkMode w) \<and>
   (\<not> onDarkModeChange cfg \<longrightarrow>
      newEvents w (updateDarkMode cfg ev v w) = [InternalSet v] \<and>
      internalDarkMode (updateDarkMode cfg ev v w) = v) \<and>
   (onDarkModeChange cfg \<longrightarrow>
      internalDarkMode (run cfg ev acts w) = internalDarkMode w \<and>
      filter isInternalSet (newEvents w (run cfg ev acts w)) = []) \<and>
   (\<not> onDarkModeChange cfg \<longrightarrow>
      filter isCallback (newEvents w (run cfg ev acts w)) = [])"
proof -
  obtain evs where e: "trace (run cfg ev acts w) = trace w @ evs"
    "onDarkModeChange cfg \<longrightarrow> filter isInternalSet evs = []"
    "\<not> onDarkModeChange cfg \<longrightarrow> filter isCallback evs = []"
    using run_events [of cfg ev acts w] by blast
  have n: "newEvents w (run cfg ev acts w) = evs"
    using e(1) by (rule newEvents_append)
  show ?thesis
    unfolding n using e(2,3)
    by (simp add: isDarkMode_def updateDarkMode_trace updateDarkMode_internal run_internal)
qed

theorem isDarkMode_single_source_witness:
  "isDarkMode (defaultOptions\<lparr>externalDarkMode := Some True, onDarkModeChange := True\<rparr>) freshWorld \<and>
   \<not> isDarkMode defaultOptions freshWorld \<and>
   newEvents freshWorld
     (updateDarkMode (defaultOptions\<lparr>externalDarkMode := Some True, onDarkModeChange := True\<rparr>)
        browserEnv False freshWorld) = [ChangeCallback False] \<and>
   \<not> internalDarkMode
     (run (defaultOptions\<lparr>externalDarkMode := Some True, onDarkModeChange := True\<rparr>)
        browserEnv [SetTheme True, TransitionCallback] freshWorld) \<and>
   newEvents freshWorld (updateDarkMode defaultOptions browserEnv True freshWorld) = [InternalSet True] \<and>
   internalDarkMode (updateDarkMode defaultOptions browserEnv True freshWorld) \<and>
   filter isCallback
     (newEvents freshWorld (run defaultOptions browserEnv [SetTheme True, TransitionCallback] freshWorld)) = []"
proof -
  let ?c = "defaultOptions\<lparr>externalDarkMode := Some True, onDarkModeChange := True\<rparr>"
  note a = isDarkMode_single_source [where cfg = ?c and ext = True and w = freshWorld
      and ev = browserEnv and v = False and acts = "[SetTheme True, TransitionCallback]"]
  note b = isDarkMode_single_source [where cfg = defaultOptions and w = freshWorld
      and ev = browserEnv and v = True and acts = "[SetTheme True, TransitionCallback]"]
  have c: "externalDarkMode ?c = Some True" "onDarkModeChange ?c"
    "externalDarkMode defaultOptions = None" "\<not> onDarkModeChange defaultOptions"
    by simp_all
  from a c(1,2) have a': "isDarkMode ?c freshWorld = True"
    "newEvents freshWorld (updateDarkMode ?c browserEnv False freshWorld) = [ChangeCallback False]"
    "internalDarkMode (run ?c browserEnv [SetTheme True, TransitionCallback] freshWorld)
       = internalDarkMode freshWorld"
    by blast+
  from b c(3,4) have b': "isDarkMode defaultOptions freshWorld = internalDarkMode freshWorld"
    "newEvents freshWorld (updateDarkMode defaultOptions browserEnv True freshWorld) = [InternalSet True]"
    "internalDarkMode (updateDarkMode defaultOptions browserEnv True freshWorld) = True"
    "filter isCallback
     (newEvents freshWorld (run defaultOptions browserEnv [SetTheme True, TransitionCallback] freshWorld)) = []"
    by blast+
  from a' b' show ?thesis by simp
qed

lemma filter_removeFirst_le:
  "length (filter (\<lambda>e. elemId e = j) (removeFirst i h)) \<le> length (filter (\<lambda>e. elemId e = j) h)"
  by (induction h) auto

lemma atMostOne_removeFirst: "atMostOne j h \<Longrightarrow> atMostOne j (removeFirst i h)"
  unfolding atMostOne_def using filter_removeFirst_le [of j i h] by simp

lemma removeFirst_absent:
  "atMostOne i h \<Longrightarrow> filter (\<lambda>e. elemId e = i) (removeFirst i h) = []"
  by (induction h) (auto simp add: atMostOne_def split: if_splits)

lemma atMostOne_append:
  "atMostOne j h \<Longrightarrow> elemId e \<noteq> j \<or> filter (\<lambda>e. elemId e = j) h = [] \<Longrightarrow> atMostOne j (h @ [e])"
  by (auto simp add: atMostOne_def)

lemma find_None_absent:
  "find (\<lambda>e. elemId e = i) h = None \<Longrightarrow> filter (\<lambda>e. elemId e = i) h = []"
  by (induction h) (auto split: if_splits)

lemma removeExisting_keeps:
  assumes "atMostOne j (docHead w)" "list_all (atMostOne j) (snapshots w)"
  shows "atMostOne j (docHead (removeExisting i w)) \<and>
         list_all (atMostOne j) (snapshots (removeExisting i w))"
  using assms atMostOne_removeFirst [OF assms(1), of i]
  by (simp add: removeExisting_def split: option.splits)

lemma removeExisting_absent:
  assumes "i \<noteq> []" "atMostOne i (docHead w)"
  shows "filter (\<lambda>e. elemId e = i) (docHead (removeExisting i w)) = []"
  using assms
  by (simp add: removeExisting_def getElementById_def find_None_absent removeFirst_absent
      split: option.splits)

lemma setTheme_snapshots:
  assumes "\<not> directPath cfg ev w"
  shows "snapshots (setTheme cfg ev b w) =
     snapshots (removeExisting (styleId cfg) w) @ [docHead (setTheme cfg ev b w)]"
  unfolding setTheme_animated_head [OF assms]
  using assms
  by (cases "animationType cfg")
    (simp_all add: setTheme_def directPath_def applyDefs split: prod.splits)

lemma setTheme_keeps:
  assumes "styleId cfg \<noteq> []"
    and "atMostOne j (docHead w)" "list_all (atMostOne j) (snapshots w)"
  shows "atMostOne j (docHead (setTheme cfg ev b w)) \<and>
         list_all (atMostOne j) (snapshots (setTheme cfg ev b w))"
proof (cases "directPath cfg ev w")
  case True
  then show ?thesis using assms(2,3) by (simp add: setTheme_direct)
next
  case False
  have r: "atMostOne j (docHead (removeExisting (styleId cfg) w))"
    "list_all (atMostOne j) (snapshots (removeExisting (styleId cfg) w))"
    using removeExisting_keeps [OF assms(2,3)] by simp_all
  have "styleId cfg \<noteq> j \<or>
      filter (\<lambda>e. elemId e = j) (docHead (removeExisting (styleId cfg) w)) = []"
    using assms(1,2) removeExisting_absent [of j w] by auto
  then have h: "atMostOne j (docHead (setTheme cfg ev b w))"
    unfolding setTheme_animated_head [OF False]
    by (intro atMostOne_append [OF r(1)]) simp
  show ?thesis
    using h r(2) by (simp add: setTheme_snapshots [OF False])
qed

lemma cleanup_keeps:
  assumes "atMostOne j (docHead w)" "list_all (atMostOne j) (snapshots w)"
  shows "atMostOne j (docHead (cleanup cfg w)) \<and>
         list_all (atMostOne j) (snapshots (cleanup cfg w))"
proof -
  have "atMostOne j (docHead (w\<lparr>timers := timers w - 1\<rparr>))"
    "list_all (atMostOne j) (snapshots (w\<lparr>timers := timers w - 1\<rparr>))"
    using assms by simp_all
  from removeExisting_keeps [OF this, of "styleId cfg"] assms
  show ?thesis by (simp add: cleanup_def)
qed

lemma step_keeps:
  assumes "styleId cfg \<noteq> []"
    and "atMostOne j (docHead w)" "list_all (atMostOne j) (snapshots w)"
  shows "atMostOne j (docHead (step cfg ev a w)) \<and>
         list_all (atMostOne j) (snapshots (step cfg ev a w))"
proof (cases a)
  case (SetTheme b)
  then show ?thesis using setTheme_keeps [OF assms] by simp
next
  case (ToggleTheme r)
  then show ?thesis using setTheme_keeps [OF assms] assms(2,3) by (simp add: toggleTheme_def)
next
  case TransitionCallback
  then show ?thesis using assms(2,3) by (simp add: transitionCallback_def split: list.splits)
next
  case ReadyResume
  then show ?thesis using assms(2,3) by (simp add: resumeAfterReady_def)
next
  case CleanupTimer
  then show ?thesis using cleanup_keeps [OF assms(2,3)] by simp
next
  case (AmbientChange m)
  then show ?thesis using assms(2,3) by (simp add: ambientChange_def handleChange_def Let_def)
qed (use assms(2,3) in simp_all)

lemma run_keeps:
  assumes "styleId cfg \<noteq> []"
    and "atMostOne j (docHead w)" "list_all (atMostOne j) (snapshots w)"
  shows "atMostOne j (docHead (run cfg ev acts w)) \<and>
         list_all (atMostOne j) (snapshots (run cfg ev acts w))"
  using assms(2,3)
proof (induction acts arbitrary: w)
  case Nil
  then show ?case by simp
next
  case (Cons a acts)
  from step_keeps [OF assms(1) Cons.prems, of ev a]
  show ?case using Cons.IH [of "step cfg ev a w"] by simp
qed

lemma mount_keeps:
  assumes "atMostOne j (docHead w)" "list_all (atMostOne j) (snapshots w)"
  shows "atMostOne j (docHead (mount cfg ev w)) \<and>
         list_all (atMostOne j) (snapshots (mount cfg ev w))"
proof -
  have b: "elemId baseStyle \<noteq> []" by (simp add: baseStyle_def)
  show ?thesis
    using assms b
    by (auto simp add: mount_def injectBaseStyle_def getElementById_def find_None_absent
        intro!: atMostOne_append split: option.splits)
qed

text \<open>Every change of the document head is recorded: the last snapshot is the head.\<close>

lemma step_tracks:
  assumes "snapshots w \<noteq> []" "last (snapshots w) = docHead w"
  shows "snapshots (step cfg ev a w) \<noteq> [] \<and>
         last (snapshots (step cfg ev a w)) = docHead (step cfg ev a w)"
proof -
  have s: "snapshots (setTheme cfg ev b w) \<noteq> [] \<and>
         last (snapshots (setTheme cfg ev b w)) = docHead (setTheme cfg ev b w)" for b
    using assms
    by (cases "directPath cfg ev w") (simp_all add: setTheme_direct setTheme_snapshots)
  show ?thesis
  proof (cases a)
    case (SetTheme b)
    then show ?thesis using s by simp
  next
    case (ToggleTheme r)
    then show ?thesis using s assms by (simp add: toggleTheme_def)
  next
    case TransitionCallback
    then show ?thesis using assms by (simp add: transitionCallback_def split: list.splits)
  next
    case ReadyResume
    then show ?thesis using assms by (simp add: resumeAfterReady_def)
  next
    case CleanupTimer
    then show ?thesis using assms
      by (simp add: cleanup_def removeExisting_def split: option.splits)
  next
    case (AmbientChange m)
    then show ?thesis using assms by (simp add: ambientChange_def handleChange_def Let_def)
  qed (use assms in simp_all)
qed

lemma run_tracks:
  assumes "snapshots w \<noteq> []" "last (snapshots w) = docHead w"
  shows "snapshots (run cfg ev acts w) \<noteq> [] \<and>
         last (snapshots (run cfg ev acts w)) = docHead (run cfg ev acts w)"
  using assms
proof (induction acts arbitrary: w)
  case Nil
  then show ?case by simp
next
  case (Cons a acts)
  from step_tracks [OF Cons.prems, of cfg ev a]
  show ?case using Cons.IH [of "step cfg ev a w"] by simp
qed

text \<open>
  Claim C4. Let the style identifier be a real one: not the empty string, which
  identifies no element. Take a document whose head, now and at every earlier recorded
  point, holds at most one element with the identifier \<open>i\<close>. After mounting, and after
  every sequence of \<open>setTheme\<close> and \<open>toggleTheme\<close> calls (of the latest render or of a stale
  one) interleaved in any way with their continuations (transition callbacks, resumptions,
  cleanup timers) and with changes of the environment, the head holds at most one element
  with that identifier, and so did the head after every single attachment and removal on
  the way. The recorded points are all of them: the last one is the head itself.
\<close>

theorem one_fragment_per_identifier:
  assumes "styleId cfg \<noteq> []"
    and "atMostOne i (docHead w)" and "list_all (atMostOne i) (snapshots w)"
    and "snapshots w \<noteq> []" and "last (snapshots w) = docHead w"
  shows "atMostOne i (docHead (run cfg ev acts w)) \<and>
         list_all (atMostOne i) (snapshots (run cfg ev acts w)) \<and>
         last (snapshots (run cfg ev acts w)) = docHead (run cfg ev acts w) \<and>
         atMostOne i (docHead (run cfg ev acts (mount cfg ev w))) \<and>
         list_all (atMostOne i) (snapshots (run cfg ev acts (mount cfg ev w)))"
proof -
  have m: "atMostOne i (docHead (mount cfg ev w))"
    "list_all (atMostOne i) (snapshots (mount cfg ev w))"
    using mount_keeps [OF assms(2,3)] by simp_all
  show ?thesis
    using run_keeps [OF assms(1,2,3)] run_tracks [OF assms(4,5)] run_keeps [OF assms(1) m]
    by simp
qed

theorem one_fragment_per_identifier_witness:
  "atMostOne ''theme-transition-style''
     (docHead (run (defaultOptions\<lparr>animationType := FADE\<rparr>) browserEnv
        [SetTheme True, SetTheme False, TransitionCallback, ReadyResume,
         ToggleTheme \<lparr>resultIsDarkMode = False, resultIsTransitioning = False\<rparr>,
         SetTheme True, CleanupTimer, TransitionCallback] freshWorld)) \<and>
   list_all (atMostOne ''theme-transition-style'')
     (snapshots (run (defaultOptions\<lparr>animationType := FADE\<rparr>) browserEnv
        [SetTheme True, SetTheme False, TransitionCallback, ReadyResume,
         ToggleTheme \<lparr>resultIsDarkMode = False, resultIsTransitioning = False\<rparr>,
         SetTheme True, CleanupTimer, TransitionCallback] freshWorld)) \<and>
   length (filter (\<lambda>e. elemId e = ''theme-transition-style'')
     (docHead (run (defaultOptions\<lparr>animationType := FADE\<rparr>) browserEnv
        [SetTheme True, SetTheme False] freshWorld))) = 1"
proof -
  have s: "styleId (defaultOptions\<lparr>animationType := FADE\<rparr>) \<noteq> []" by simp
  have h: "atMostOne ''theme-transition-style'' (docHead freshWorld)"
    "list_all (atMostOne ''theme-transition-style'') (snapshots freshWorld)"
    "snapshots freshWorld \<noteq> []" "last (snapshots freshWorld) = docHead freshWorld"
    by (simp_all add: atMostOne_def)
  have e: "length (filter (\<lambda>e. elemId e = ''theme-transition-style'')
     (docHead (run (defaultOptions\<lparr>animationType := FADE\<rparr>) browserEnv
        [SetTheme True, SetTheme False] freshWorld))) = 1"
    by (simp add: evalDefs)
  from one_fragment_per_identifier [OF s h] e show ?thesis by blast
qed

text \<open>
  With the empty string as style identifier nothing is ever found, so nothing is removed:
  two calls leave two fragments.
\<close>

lemma empty_styleId_accumulates:
  "length (docHead (run (defaultOptions\<lparr>animationType := FADE, styleId := []\<rparr>) browserEnv
        [SetTheme True, SetTheme False] freshWorld)) = 2"
  by (simp add: evalDefs)










text \<open>
  With the empty string as marker class name the effect throws before it reaches storage:
  mounting records the error and stores nothing.
\<close>

lemma empty_className_stores_nothing:
  "storage (mount (defaultOptions\<lparr>themeClassName := []\<rparr>) browserEnv freshWorld) ''theme'' = None \<and>
   uncaught (mount (defaultOptions\<lparr>themeClassName := []\<rparr>) browserEnv freshWorld) = [SyntaxError]"
  by (simp add: evalDefs)

end
